theory Spec2Isabelle
  imports Complex_Main "HOL-Library.Char_ord" "HOL-Library.List_Lexorder"
    "HOL-Library.Sublist" "HOL-Library.Multiset"
begin

section \<open>Medicare carrier claims: the RCMAnalyzer pipeline of main\_script.py\<close>

text \<open>
  The embedding follows \<^verbatim>\<open>src/src/main_script.py\<close>, class \<^verbatim>\<open>RCMAnalyzer\<close>.
  A pandas data frame is a list of rows; a column computed row by row is a function of
  the row; the instance attributes \<^verbatim>\<open>df_clean\<close> and \<^verbatim>\<open>results\<close> are passed and
  returned explicitly.

  Numbers. The four amount columns come out of \<^verbatim>\<open>pd.to_numeric(..., errors='coerce')\<close>
  as float64 cells: a parsed number or NaN. They are modelled as \<open>real option\<close>, \<open>None\<close>
  being NaN, with exact real arithmetic in place of rounded binary arithmetic; cells
  holding an infinity are outside the model. Results of a division, which numpy
  evaluates to NaN or to an infinity when the divisor is zero, have the type \<open>fnum\<close>.
  A sum or quotient of the source is the rounded neighbour of the exact value here;
  statements below that compare such a value with a constant hold of the exact value.
\<close>

subsection \<open>Values\<close>

datatype fnum = NaN | NegInf | Fin real | PosInf

datatype error = ZeroDivisionError

text \<open>numpy float division: \<open>0/0\<close> is NaN, \<open>x/0\<close> is an infinity with the sign of \<open>x\<close>.\<close>

definition np_div :: "real \<Rightarrow> real \<Rightarrow> fnum" where
  "np_div x y =
     (if y = 0 then (if x = 0 then NaN else if 0 < x then PosInf else NegInf)
      else Fin (x / y))"

text \<open>Elementwise division of two float columns: NaN in either operand gives NaN.\<close>

definition col_div :: "real option \<Rightarrow> real option \<Rightarrow> fnum" where
  "col_div a b = (case (a, b) of (Some x, Some y) \<Rightarrow> np_div x y | _ \<Rightarrow> NaN)"

text \<open>Elementwise subtraction: NaN in either operand gives NaN.\<close>

definition col_sub :: "real option \<Rightarrow> real option \<Rightarrow> real option" where
  "col_sub a b = (case (a, b) of (Some x, Some y) \<Rightarrow> Some (x - y) | _ \<Rightarrow> None)"

text \<open>Elementwise comparison \<^verbatim>\<open><\<close>: false as soon as an operand is NaN (or NaT).\<close>

definition col_lt :: "('a \<Rightarrow> 'a \<Rightarrow> bool) \<Rightarrow> 'a option \<Rightarrow> 'a option \<Rightarrow> bool" where
  "col_lt lt a b = (case (a, b) of (Some x, Some y) \<Rightarrow> lt x y | _ \<Rightarrow> False)"

text \<open>Comparison of a float with a finite constant, and of two floats.\<close>

fun fnum_lt_real :: "fnum \<Rightarrow> real \<Rightarrow> bool" where
  "fnum_lt_real NaN c = False"
| "fnum_lt_real NegInf c = True"
| "fnum_lt_real (Fin x) c = (x < c)"
| "fnum_lt_real PosInf c = False"

fun fnum_le :: "fnum \<Rightarrow> fnum \<Rightarrow> bool" where
  "fnum_le NaN b = False"
| "fnum_le a NaN = False"
| "fnum_le NegInf b = True"
| "fnum_le (Fin x) NegInf = False"
| "fnum_le (Fin x) (Fin y) = (x \<le> y)"
| "fnum_le (Fin x) PosInf = True"
| "fnum_le PosInf PosInf = True"
| "fnum_le PosInf b = False"

text \<open>\<^verbatim>\<open>Series.sum()\<close> skips NaN; the sum of no values is \<open>0\<close>.\<close>

fun nansum :: "real option list \<Rightarrow> real" where
  "nansum [] = 0"
| "nansum (None # xs) = nansum xs"
| "nansum (Some x # xs) = x + nansum xs"

text \<open>\<^verbatim>\<open>Series.mean()\<close> skips NaN; the mean of no values is NaN.\<close>

definition nanmean :: "real option list \<Rightarrow> fnum" where
  "nanmean xs =
     (let vs = List.map_filter (\<lambda>x. x) xs
      in if vs = [] then NaN else Fin (sum_list vs / real (length vs)))"

text \<open>The mean of a boolean column (\<open>True\<close> counts \<open>1\<close>), times a constant.\<close>

definition bool_mean :: "bool list \<Rightarrow> fnum" where
  "bool_mean bs =
     (if bs = [] then NaN else Fin (real (length (filter (\<lambda>b. b) bs)) / real (length bs)))"

fun fnum_scale :: "real \<Rightarrow> fnum \<Rightarrow> fnum" where
  "fnum_scale c (Fin x) = Fin (c * x)"
| "fnum_scale c NaN = NaN"
| "fnum_scale c PosInf = (if 0 < c then PosInf else if c < 0 then NegInf else NaN)"
| "fnum_scale c NegInf = (if 0 < c then NegInf else if c < 0 then PosInf else NaN)"

subsection \<open>Dates\<close>

text \<open>
  A parsed date cell is a calendar date or NaT (\<open>None\<close>). \<^verbatim>\<open>.dt.year\<close> reads the year,
  \<^verbatim>\<open><\<close> compares chronologically, and the difference of two dates in \<^verbatim>\<open>.dt.days\<close>
  is the difference of their day numbers in the proleptic Gregorian calendar.
\<close>

record date =
  year :: int
  month :: int
  day :: int

definition date_lt :: "date \<Rightarrow> date \<Rightarrow> bool" where
  "date_lt d e \<longleftrightarrow>
     year d < year e \<or> (year d = year e \<and> (month d < month e \<or> (month d = month e \<and> day d < day e)))"

definition days_from_civil :: "date \<Rightarrow> int" where
  "days_from_civil d =
     (let y = (if month d \<le> 2 then year d - 1 else year d);
          era = y div 400;
          yoe = y - era * 400;
          mp = (month d + 9) mod 12;
          doy = (153 * mp + 2) div 5 + day d - 1;
          doe = yoe * 365 + yoe div 4 - yoe div 100 + doy
      in era * 146097 + doe - 719468)"

subsection \<open>Claim lines\<close>

text \<open>
  One row of the frame after the coercions of \<^verbatim>\<open>clean_data\<close> (steps 2 and 3). The file
  is read with \<^verbatim>\<open>header=None\<close>, so every other cell is a string or missing.
\<close>

record claim_line =
  CLM_ID :: "string option"
  LINE_NUM :: "string option"
  LINE_SBMTD_CHRG_AMT :: "real option"
  LINE_ALOWD_CHRG_AMT :: "real option"
  LINE_NCH_PMT_AMT :: "real option"
  LINE_PRVDR_PMT_AMT :: "real option"
  LINE_1ST_EXPNS_DT :: "date option"
  NCH_WKLY_PROC_DT :: "date option"
  HCPCS_CD :: "string option"
  PRVDR_SPCLTY :: "string option"

subsection \<open>clean\_data\<close>

text \<open>Step 4, lines 80 to 84.\<close>

definition FIN_LOGIC_VIOLATION :: "claim_line \<Rightarrow> bool" where
  "FIN_LOGIC_VIOLATION r \<longleftrightarrow>
     col_lt (<) (LINE_SBMTD_CHRG_AMT r) (LINE_ALOWD_CHRG_AMT r) \<or>
     col_lt (<) (LINE_ALOWD_CHRG_AMT r) (LINE_NCH_PMT_AMT r) \<or>
     col_lt (<) (LINE_NCH_PMT_AMT r) (LINE_PRVDR_PMT_AMT r)"

text \<open>Step 5, lines 90 to 92.\<close>

definition DATE_LOGIC_VIOLATION :: "claim_line \<Rightarrow> bool" where
  "DATE_LOGIC_VIOLATION r \<longleftrightarrow> col_lt date_lt (NCH_WKLY_PROC_DT r) (LINE_1ST_EXPNS_DT r)"

text \<open>Step 6, line 95: the year of NaT is NaN.\<close>

definition SERVICE_YEAR :: "claim_line \<Rightarrow> int option" where
  "SERVICE_YEAR r = map_option year (LINE_1ST_EXPNS_DT r)"

text \<open>
  Steps 6 and 7, lines 96 to 103. The counts printed on the way are not modelled, except
  the quotient of line 102, \<^verbatim>\<open>len(self.df_clean) / len(df_2022)\<close>: both are Python
  integers, so the division raises \<^verbatim>\<open>ZeroDivisionError\<close> when no row is of 2022.
  (Line 87 divides a numpy integer, which gives NaN and a warning, not an exception.)
\<close>

definition clean_data :: "claim_line list \<Rightarrow> error + claim_line list" where
  "clean_data df =
     (let df_2022 = filter (\<lambda>r. SERVICE_YEAR r = Some 2022) df;
          df_clean = filter (\<lambda>r. FIN_LOGIC_VIOLATION r = False) df_2022
      in if length df_2022 = 0 then Inl ZeroDivisionError else Inr df_clean)"

subsection \<open>calculate\_metrics\<close>

text \<open>Lines 113 to 125: the derived columns.\<close>

definition PROCESSING_DELAY_DAYS :: "claim_line \<Rightarrow> int option" where
  "PROCESSING_DELAY_DAYS r =
     (case (NCH_WKLY_PROC_DT r, LINE_1ST_EXPNS_DT r) of
        (Some p, Some e) \<Rightarrow> Some (days_from_civil p - days_from_civil e)
      | _ \<Rightarrow> None)"

definition UNDERPAYMENT_AMT :: "claim_line \<Rightarrow> real option" where
  "UNDERPAYMENT_AMT r = col_sub (LINE_ALOWD_CHRG_AMT r) (LINE_NCH_PMT_AMT r)"

definition REALIZATION_RATE :: "claim_line \<Rightarrow> fnum" where
  "REALIZATION_RATE r = col_div (LINE_NCH_PMT_AMT r) (LINE_ALOWD_CHRG_AMT r)"

text \<open>Lines 128 to 137: the payment classifications.\<close>

definition ZERO_PAID_FLAG :: "claim_line \<Rightarrow> bool" where
  "ZERO_PAID_FLAG r \<longleftrightarrow> (case LINE_NCH_PMT_AMT r of Some p \<Rightarrow> p = 0 | None \<Rightarrow> False)"

definition PARTIAL_PAID_FLAG :: "claim_line \<Rightarrow> bool" where
  "PARTIAL_PAID_FLAG r \<longleftrightarrow>
     col_lt (<) (Some 0) (LINE_NCH_PMT_AMT r) \<and>
     col_lt (<) (LINE_NCH_PMT_AMT r) (LINE_ALOWD_CHRG_AMT r)"

text \<open>
  \<^verbatim>\<open>np.isclose(a, b, rtol=1e-05, atol=1e-08, equal_nan=False)\<close> is, on finite
  operands, \<^verbatim>\<open>|a - b| <= atol + rtol * |b|\<close>, and false when an operand is NaN. The
  call of line 133 passes \<^verbatim>\<open>atol=1\<close> and leaves \<^verbatim>\<open>rtol\<close> at its default.
\<close>

definition isclose :: "real option \<Rightarrow> real option \<Rightarrow> real \<Rightarrow> real \<Rightarrow> bool" where
  "isclose a b rtol atol =
     (case (a, b) of (Some x, Some y) \<Rightarrow> \<bar>x - y\<bar> \<le> atol + rtol * \<bar>y\<bar> | _ \<Rightarrow> False)"

definition default_rtol :: real where
  "default_rtol = 1 / 100000"

definition FULLY_PAID_FLAG :: "claim_line \<Rightarrow> bool" where
  "FULLY_PAID_FLAG r \<longleftrightarrow> isclose (LINE_NCH_PMT_AMT r) (LINE_ALOWD_CHRG_AMT r) default_rtol 1"

text \<open>
  Lines 142 to 151: the summary \<^verbatim>\<open>results['overall']\<close>. Its key
  \<^verbatim>\<open>'realization_rate'\<close> is the field \<open>overall_realization_rate\<close> here, the plain name
  being the column of the aggregate tables.
\<close>

record overall =
  total_claims :: nat
  total_revenue :: real
  total_paid :: real
  total_leakage :: real
  overall_realization_rate :: fnum
  zero_paid_pct :: fnum
  partial_paid_pct :: fnum
  avg_delay :: fnum

definition calculate_metrics :: "claim_line list \<Rightarrow> overall" where
  "calculate_metrics df =
     \<lparr> total_claims = length df,
       total_revenue = nansum (map LINE_ALOWD_CHRG_AMT df),
       total_paid = nansum (map LINE_NCH_PMT_AMT df),
       total_leakage = nansum (map UNDERPAYMENT_AMT df),
       overall_realization_rate =
         np_div (100 * nansum (map LINE_NCH_PMT_AMT df)) (nansum (map LINE_ALOWD_CHRG_AMT df)),
       zero_paid_pct = fnum_scale 100 (bool_mean (map ZERO_PAID_FLAG df)),
       partial_paid_pct = fnum_scale 100 (bool_mean (map PARTIAL_PAID_FLAG df)),
       avg_delay = nanmean (map (map_option real_of_int \<circ> PROCESSING_DELAY_DAYS) df) \<rparr>"

subsection \<open>Grouping\<close>

text \<open>
  \<^verbatim>\<open>df.groupby(col, as_index=False)\<close> with the defaults \<^verbatim>\<open>sort=True\<close> and
  \<^verbatim>\<open>dropna=True\<close>: one group for each distinct key present, in ascending key order;
  the rows whose key is missing belong to no group.
\<close>

definition group_keys :: "(claim_line \<Rightarrow> string option) \<Rightarrow> claim_line list \<Rightarrow> string list" where
  "group_keys col df = sort (remdups (List.map_filter col df))"

definition group_rows :: "(claim_line \<Rightarrow> string option) \<Rightarrow> string \<Rightarrow> claim_line list \<Rightarrow> claim_line list" where
  "group_rows col k df = filter (\<lambda>r. col r = Some k) df"

text \<open>The aggregation \<^verbatim>\<open>"count"\<close> counts the cells that are not missing.\<close>

definition count_present :: "'a option list \<Rightarrow> nat" where
  "count_present xs = length (filter (\<lambda>x. x \<noteq> None) xs)"

subsection \<open>analyze\_specialty\<close>

record agg_row =
  group_key :: string
  allowed_amt :: real
  paid_amt :: real
  underpayment_amt :: real
  realization_rate :: fnum

definition specialty_group :: "claim_line list \<Rightarrow> string \<Rightarrow> agg_row" where
  "specialty_group df k =
     (let g = group_rows PRVDR_SPCLTY k df;
          allowed = nansum (map LINE_ALOWD_CHRG_AMT g);
          paid = nansum (map LINE_NCH_PMT_AMT g)
      in \<lparr> group_key = k, allowed_amt = allowed, paid_amt = paid,
           underpayment_amt = nansum (map UNDERPAYMENT_AMT g),
           realization_rate = np_div paid allowed \<rparr>)"

definition analyze_specialty :: "claim_line list \<Rightarrow> agg_row list" where
  "analyze_specialty df = map (specialty_group df) (group_keys PRVDR_SPCLTY df)"

subsection \<open>analyze\_hcpcs\<close>

record hcpcs_row = agg_row +
  services :: nat
  total_delays :: int
  cum_underpayment_pct :: fnum

text \<open>\<^verbatim>\<open>Series.cumsum()\<close> on a column without NaN: the running sums.\<close>

fun cumsum_from :: "real \<Rightarrow> real list \<Rightarrow> real list" where
  "cumsum_from acc [] = []"
| "cumsum_from acc (x # xs) = (acc + x) # cumsum_from (acc + x) xs"

definition cumsum :: "real list \<Rightarrow> real list" where
  "cumsum xs = cumsum_from 0 xs"

text \<open>The sum of an integer-valued column skipping missing cells.\<close>

definition nansum_int :: "int option list \<Rightarrow> int" where
  "nansum_int xs = sum_list (List.map_filter (\<lambda>x. x) xs)"

text \<open>
  Lines 161 to 177: one row for each group. The Pareto column does not exist yet at this
  point of the source; its field holds NaN until \<open>attach_cum_pct\<close> sets it.
\<close>

definition hcpcs_group :: "claim_line list \<Rightarrow> string \<Rightarrow> hcpcs_row" where
  "hcpcs_group df k =
     (let g = group_rows HCPCS_CD k df;
          allowed = nansum (map LINE_ALOWD_CHRG_AMT g);
          paid = nansum (map LINE_NCH_PMT_AMT g)
      in \<lparr> group_key = k, allowed_amt = allowed, paid_amt = paid,
           underpayment_amt = nansum (map UNDERPAYMENT_AMT g),
           realization_rate = np_div paid allowed,
           services = count_present (map LINE_NUM g),
           total_delays = nansum_int (map PROCESSING_DELAY_DAYS g),
           cum_underpayment_pct = NaN \<rparr>)"

text \<open>
  Line 180, \<^verbatim>\<open>sort_values("underpayment_amt", ascending=False)\<close>: descending in the
  summed underpayment. Rows with equal sums are kept in group order here; no statement
  below depends on the order of such rows.
\<close>

definition sort_desc :: "hcpcs_row list \<Rightarrow> hcpcs_row list" where
  "sort_desc t = sort_key (\<lambda>row. - underpayment_amt row) t"

text \<open>
  Lines 181 to 184: the running sum over the grand total, row by row. The source rounds
  the running sum, the total and each quotient to float64, so where this exact column
  ends at 1 the column of the source can end one unit in the last place beside it.
\<close>

definition attach_cum_pct :: "hcpcs_row list \<Rightarrow> hcpcs_row list" where
  "attach_cum_pct t =
     (let total = sum_list (map underpayment_amt t)
      in map (\<lambda>(row, c). row\<lparr>cum_underpayment_pct := np_div c total\<rparr>)
           (zip t (cumsum (map underpayment_amt t))))"

definition analyze_hcpcs :: "claim_line list \<Rightarrow> hcpcs_row list" where
  "analyze_hcpcs df = attach_cum_pct (sort_desc (map (hcpcs_group df) (group_keys HCPCS_CD df)))"

subsection \<open>identify\_risks\<close>

text \<open>
  \<^verbatim>\<open>Series.quantile(q)\<close> with the default linear interpolation: on the values in
  ascending order the position \<open>(n - 1) * q\<close> is split into its floor \<open>lo\<close> and its
  fraction, and the result lies that fraction of the way from the value at \<open>lo\<close> to
  the next one. The quantile of an empty column is NaN (\<open>None\<close>).
\<close>

definition quantile :: "real list \<Rightarrow> real \<Rightarrow> real option" where
  "quantile xs q =
     (if xs = [] then None
      else let vs = sort xs;
               pos = real (length vs - 1) * q;
               lo = nat \<lfloor>pos\<rfloor>;
               hi = min (lo + 1) (length vs - 1);
               frac = pos - real lo
           in Some (vs ! lo + (vs ! hi - vs ! lo) * frac))"

text \<open>Lines 224 to 227: the column \<^verbatim>\<open>HIGH_RISK_FLAG\<close>, a function of the table and the row.\<close>

definition HIGH_RISK_FLAG :: "hcpcs_row list \<Rightarrow> hcpcs_row \<Rightarrow> bool" where
  "HIGH_RISK_FLAG t row \<longleftrightarrow>
     col_lt (<) (quantile (map underpayment_amt t) (9 / 10)) (Some (underpayment_amt row)) \<or>
     fnum_lt_real (realization_rate row) (9 / 10)"

definition identify_risks :: "hcpcs_row list \<Rightarrow> hcpcs_row list" where
  "identify_risks t = filter (HIGH_RISK_FLAG t) t"

subsection \<open>run\_full\_analysis\<close>

text \<open>
  The stages in the order of lines 383 to 388, on the frame that \<^verbatim>\<open>load_data\<close> has
  read. An exception of a stage ends the run there; a run that is \<open>Inr\<close> has filled
  \<^verbatim>\<open>results\<close> and goes on to \<^verbatim>\<open>export_results\<close>, which writes the files.
\<close>

record results =
  overall :: overall
  hcpcs :: "hcpcs_row list"
  specialty :: "agg_row list"
  high_risk :: "hcpcs_row list"

definition run_full_analysis :: "claim_line list \<Rightarrow> error + results" where
  "run_full_analysis df =
     (case clean_data df of
        Inl e \<Rightarrow> Inl e
      | Inr df_clean \<Rightarrow>
          Inr \<lparr> overall = calculate_metrics df_clean,
                hcpcs = analyze_hcpcs df_clean,
                specialty = analyze_specialty df_clean,
                high_risk = identify_risks (analyze_hcpcs df_clean) \<rparr>)"

section \<open>Example frames\<close>

text \<open>Concrete claim lines on which the statements below are evaluated.\<close>

definition mk_line :: "real option \<Rightarrow> real option \<Rightarrow> real option \<Rightarrow> real option \<Rightarrow>
    date option \<Rightarrow> date option \<Rightarrow> string option \<Rightarrow> string option \<Rightarrow> claim_line" where
  "mk_line s a p q e w h sp =
     \<lparr> CLM_ID = Some ''C1'', LINE_NUM = Some ''1'',
       LINE_SBMTD_CHRG_AMT = s, LINE_ALOWD_CHRG_AMT = a,
       LINE_NCH_PMT_AMT = p, LINE_PRVDR_PMT_AMT = q,
       LINE_1ST_EXPNS_DT = e, NCH_WKLY_PROC_DT = w, HCPCS_CD = h, PRVDR_SPCLTY = sp \<rparr>"

definition mar_2022 :: date where
  "mar_2022 = \<lparr> year = 2022, month = 3, day = 5 \<rparr>"

definition apr_2022 :: date where
  "apr_2022 = \<lparr> year = 2022, month = 4, day = 1 \<rparr>"

definition mar_2021 :: date where
  "mar_2021 = \<lparr> year = 2021, month = 3, day = 5 \<rparr>"

text \<open>A consistent line of 2022; one whose processing date precedes the service; one
  submitted below the allowed amount; one of 2021.\<close>

definition line_ok :: claim_line where
  "line_ok = mk_line (Some 120) (Some 100) (Some 50) (Some 50)
     (Some mar_2022) (Some apr_2022) (Some ''A'') (Some ''01'')"

definition line_date_only :: claim_line where
  "line_date_only = mk_line (Some 120) (Some 100) (Some 100) (Some 80)
     (Some apr_2022) (Some mar_2022) (Some ''B'') (Some ''01'')"

definition line_fin :: claim_line where
  "line_fin = mk_line (Some 80) (Some 100) (Some 50) (Some 50)
     (Some mar_2022) (Some apr_2022) (Some ''A'') (Some ''02'')"

definition line_2021 :: claim_line where
  "line_2021 = mk_line (Some 120) (Some 100) (Some 50) (Some 50)
     (Some mar_2021) (Some apr_2022) (Some ''A'') (Some ''02'')"

text \<open>A line with allowed and paid both zero; one without a paid amount; a large line
  paid five units short; the three lines of the scenario of the specification (paid in
  full, unpaid, half paid, the last without procedure code); one without an allowed amount.\<close>

definition line_zero_zero :: claim_line where
  "line_zero_zero = mk_line (Some 0) (Some 0) (Some 0) (Some 0)
     (Some mar_2022) (Some apr_2022) (Some ''A'') (Some ''01'')"

definition line_paid_missing :: claim_line where
  "line_paid_missing = mk_line (Some 100) (Some 100) None None
     (Some mar_2022) (Some apr_2022) (Some ''A'') (Some ''01'')"

definition line_big :: claim_line where
  "line_big = mk_line (Some 1000000) (Some 1000000) (Some 999995) (Some 999995)
     (Some mar_2022) (Some apr_2022) (Some ''A'') (Some ''01'')"

definition line_full :: claim_line where
  "line_full = mk_line (Some 100) (Some 100) (Some 100) (Some 100)
     (Some mar_2022) (Some apr_2022) (Some ''A'') (Some ''01'')"

definition line_zero :: claim_line where
  "line_zero = mk_line (Some 100) (Some 100) (Some 0) (Some 0)
     (Some mar_2022) (Some apr_2022) (Some ''B'') (Some ''01'')"

definition line_half :: claim_line where
  "line_half = mk_line (Some 100) (Some 100) (Some 50) (Some 50)
     (Some mar_2022) (Some apr_2022) None (Some ''02'')"

definition line_allowed_missing :: claim_line where
  "line_allowed_missing = mk_line (Some 100) None (Some 50) (Some 50)
     (Some mar_2022) (Some apr_2022) (Some ''A'') (Some ''01'')"

text \<open>The number of payment-status flags that are true on a line.\<close>

definition flag_count :: "claim_line \<Rightarrow> nat" where
  "flag_count r = length (filter (\<lambda>b. b) [ZERO_PAID_FLAG r, PARTIAL_PAID_FLAG r, FULLY_PAID_FLAG r])"

text \<open>The summary of an empty frame.\<close>

definition empty_overall :: overall where
  "empty_overall = \<lparr> total_claims = 0, total_revenue = 0, total_paid = 0, total_leakage = 0,
     overall_realization_rate = NaN, zero_paid_pct = NaN, partial_paid_pct = NaN, avg_delay = NaN \<rparr>"

text \<open>A line without specialty code.\<close>

definition line_no_specialty :: claim_line where
  "line_no_specialty = mk_line (Some 100) (Some 100) (Some 70) (Some 70)
     (Some mar_2022) (Some apr_2022) (Some ''B'') None"

text \<open>
  A procedure-code table of four groups, given by key, summed allowed and summed paid
  amount: the first has the largest underpayment, the third a low realization rate, the
  last a realization rate that is NaN.
\<close>

definition risk_row :: "string \<Rightarrow> real \<Rightarrow> real \<Rightarrow> hcpcs_row" where
  "risk_row k a p =
     \<lparr> group_key = k, allowed_amt = a, paid_amt = p, underpayment_amt = a - p,
       realization_rate = np_div p a, services = 1, total_delays = 0,
       cum_underpayment_pct = NaN \<rparr>"

definition risk_table :: "hcpcs_row list" where
  "risk_table = [risk_row ''A'' 100 91, risk_row ''B'' 100 95, risk_row ''C'' 20 16, risk_row ''D'' 0 0]"

text \<open>
  The percentile as the specification words it, the standard linear interpolation: on the
  values in ascending order, with \<open>h = (n - 1) * p\<close>, the value at \<open>\<lfloor>h\<rfloor>\<close> plus the
  fraction \<open>h - \<lfloor>h\<rfloor>\<close> of the step to the value at \<open>\<lceil>h\<rceil>\<close>. It is compared with
  \<open>quantile\<close> below.
\<close>

definition percentile_linear :: "real list \<Rightarrow> real \<Rightarrow> real option" where
  "percentile_linear xs p =
     (if xs = [] then None
      else let vs = sort xs; h = real (length xs - 1) * p
           in Some (vs ! nat \<lfloor>h\<rfloor> + (h - of_int \<lfloor>h\<rfloor>) * (vs ! nat \<lceil>h\<rceil> - vs ! nat \<lfloor>h\<rfloor>)))"

section \<open>Properties\<close>

lemmas ex_defs = mk_line_def mar_2022_def apr_2022_def mar_2021_def
  line_ok_def line_date_only_def line_fin_def line_2021_def

lemmas col_defs = col_lt_def col_sub_def col_div_def np_div_def SERVICE_YEAR_def
  FIN_LOGIC_VIOLATION_def DATE_LOGIC_VIOLATION_def date_lt_def

subsection \<open>The clean dataset\<close>

text \<open>
  C1. When \<open>clean_data\<close> returns, the clean frame is the raw frame restricted, in order,
  to the lines whose service year is 2022 and whose financial-logic flag is false: a
  line is in it exactly when it is a raw line with both properties. A line of 2022
  whose only violation is the date-logic one is retained.
\<close>

theorem clean_data_iff:
  assumes "clean_data df = Inr df_clean"
  shows "df_clean = filter (\<lambda>r. SERVICE_YEAR r = Some 2022 \<and> \<not> FIN_LOGIC_VIOLATION r) df \<and>
         (\<forall>r. r \<in> set df_clean \<longleftrightarrow>
              r \<in> set df \<and> SERVICE_YEAR r = Some 2022 \<and> \<not> FIN_LOGIC_VIOLATION r) \<and>
         (\<forall>r \<in> set df. SERVICE_YEAR r = Some 2022 \<and> \<not> FIN_LOGIC_VIOLATION r \<and> DATE_LOGIC_VIOLATION r
              \<longrightarrow> r \<in> set df_clean)"
proof -
  from assms have eq: "df_clean = filter (\<lambda>r. SERVICE_YEAR r = Some 2022 \<and> \<not> FIN_LOGIC_VIOLATION r) df"
    by (auto simp: clean_data_def Let_def conj_commute split: if_splits)
  then show ?thesis by auto
qed

theorem clean_data_iff_witness:
  "clean_data [line_ok, line_date_only, line_fin, line_2021] = Inr [line_ok, line_date_only] \<and>
   DATE_LOGIC_VIOLATION line_date_only \<and> \<not> FIN_LOGIC_VIOLATION line_date_only \<and>
   line_date_only \<in> set [line_ok, line_date_only] \<and>
   FIN_LOGIC_VIOLATION line_fin \<and> line_fin \<notin> set [line_ok, line_date_only] \<and>
   SERVICE_YEAR line_2021 = Some 2021 \<and> line_2021 \<notin> set [line_ok, line_date_only]"
proof -
  have h: "clean_data [line_ok, line_date_only, line_fin, line_2021] = Inr [line_ok, line_date_only]"
    by (simp add: clean_data_def ex_defs col_defs)
  have "DATE_LOGIC_VIOLATION line_date_only" "\<not> FIN_LOGIC_VIOLATION line_date_only"
     "FIN_LOGIC_VIOLATION line_fin" "SERVICE_YEAR line_2021 = Some 2021"
    by (simp_all add: ex_defs col_defs)
  with h clean_data_iff [OF h] show ?thesis
    by (simp add: ex_defs col_defs clean_data_def)
qed

text \<open>
  C2. A clean line on which the four amounts are present satisfies
  submitted \<open>\<ge>\<close> allowed \<open>\<ge>\<close> paid-to-plan \<open>\<ge>\<close> paid-to-provider. The flag that excludes
  a line is true exactly when one of the three strict comparisons holds between two
  present amounts; a comparison with a missing operand is false.
\<close>

theorem clean_chain:
  assumes "clean_data df = Inr df_clean" and "r \<in> set df_clean"
    and "LINE_SBMTD_CHRG_AMT r = Some s" and "LINE_ALOWD_CHRG_AMT r = Some a"
    and "LINE_NCH_PMT_AMT r = Some p" and "LINE_PRVDR_PMT_AMT r = Some q"
  shows "a \<le> s \<and> p \<le> a \<and> q \<le> p \<and> \<not> FIN_LOGIC_VIOLATION r \<and>
         (\<forall>r'. FIN_LOGIC_VIOLATION r' \<longleftrightarrow>
            (\<exists>x y. LINE_SBMTD_CHRG_AMT r' = Some x \<and> LINE_ALOWD_CHRG_AMT r' = Some y \<and> x < y) \<or>
            (\<exists>x y. LINE_ALOWD_CHRG_AMT r' = Some x \<and> LINE_NCH_PMT_AMT r' = Some y \<and> x < y) \<or>
            (\<exists>x y. LINE_NCH_PMT_AMT r' = Some x \<and> LINE_PRVDR_PMT_AMT r' = Some y \<and> x < y))"
proof -
  from assms(1,2) have nv: "\<not> FIN_LOGIC_VIOLATION r"
    by (auto simp: clean_data_def Let_def split: if_splits)
  with assms(3-6) have "a \<le> s \<and> p \<le> a \<and> q \<le> p"
    by (auto simp: FIN_LOGIC_VIOLATION_def col_lt_def)
  moreover have "\<forall>r'. FIN_LOGIC_VIOLATION r' \<longleftrightarrow>
            (\<exists>x y. LINE_SBMTD_CHRG_AMT r' = Some x \<and> LINE_ALOWD_CHRG_AMT r' = Some y \<and> x < y) \<or>
            (\<exists>x y. LINE_ALOWD_CHRG_AMT r' = Some x \<and> LINE_NCH_PMT_AMT r' = Some y \<and> x < y) \<or>
            (\<exists>x y. LINE_NCH_PMT_AMT r' = Some x \<and> LINE_PRVDR_PMT_AMT r' = Some y \<and> x < y)"
    by (auto simp: FIN_LOGIC_VIOLATION_def col_lt_def split: option.splits)
  ultimately show ?thesis using nv by blast
qed

theorem clean_chain_witness:
  "clean_data [line_ok, line_fin] = Inr [line_ok] \<and> line_ok \<in> set [line_ok] \<and>
   LINE_SBMTD_CHRG_AMT line_ok = Some 120 \<and> LINE_ALOWD_CHRG_AMT line_ok = Some 100 \<and>
   LINE_NCH_PMT_AMT line_ok = Some 50 \<and> LINE_PRVDR_PMT_AMT line_ok = Some 50 \<and>
   (100::real) \<le> 120 \<and> (50::real) \<le> 100 \<and> (50::real) \<le> 50 \<and> \<not> FIN_LOGIC_VIOLATION line_ok"
proof -
  have h: "clean_data [line_ok, line_fin] = Inr [line_ok]"
    by (simp add: clean_data_def ex_defs col_defs)
  have m: "line_ok \<in> set [line_ok]" by simp
  have f: "LINE_SBMTD_CHRG_AMT line_ok = Some 120" "LINE_ALOWD_CHRG_AMT line_ok = Some 100"
    "LINE_NCH_PMT_AMT line_ok = Some 50" "LINE_PRVDR_PMT_AMT line_ok = Some 50"
    by (simp_all add: ex_defs)
  from clean_chain [OF h m f] h f show ?thesis by simp
qed

lemmas ex2_defs = line_zero_zero_def line_paid_missing_def line_big_def line_full_def line_zero_def
  line_half_def line_allowed_missing_def

lemmas flag_defs = ZERO_PAID_FLAG_def PARTIAL_PAID_FLAG_def FULLY_PAID_FLAG_def isclose_def
  default_rtol_def flag_count_def

lemmas metric_defs = calculate_metrics_def UNDERPAYMENT_AMT_def PROCESSING_DELAY_DAYS_def
  np_div_def bool_mean_def nanmean_def days_from_civil_def List.map_filter_simps

lemma clean_data_mem:
  assumes "clean_data df = Inr df_clean" and "r \<in> set df_clean"
  shows "\<not> FIN_LOGIC_VIOLATION r" and "SERVICE_YEAR r = Some 2022" and "r \<in> set df"
  using assms by (auto simp: clean_data_def Let_def split: if_splits)

subsection \<open>Payment classification\<close>

text \<open>
  C3, as stated, fails. The three flags are computed independently of each other. With
  allowed and paid both zero the zero-paid and the fully-paid flag hold although paid is
  not below allowed; without a paid amount no flag holds; and \<^verbatim>\<open>np.isclose\<close> keeps its
  relative tolerance, so a line of 1000000 paid 999995 is partial-paid and fully-paid
  although the two amounts are five units apart.
\<close>

theorem payment_flags_counterexample:
  "clean_data [line_zero_zero, line_paid_missing, line_big] = Inr [line_zero_zero, line_paid_missing, line_big] \<and>
   ZERO_PAID_FLAG line_zero_zero \<and> FULLY_PAID_FLAG line_zero_zero \<and>
   \<not> col_lt (<) (LINE_NCH_PMT_AMT line_zero_zero) (LINE_ALOWD_CHRG_AMT line_zero_zero) \<and>
   \<not> ZERO_PAID_FLAG line_paid_missing \<and> \<not> PARTIAL_PAID_FLAG line_paid_missing \<and>
   \<not> FULLY_PAID_FLAG line_paid_missing \<and>
   \<not> col_lt (<) (LINE_NCH_PMT_AMT line_paid_missing) (LINE_ALOWD_CHRG_AMT line_paid_missing) \<and>
   PARTIAL_PAID_FLAG line_big \<and> FULLY_PAID_FLAG line_big \<and>
   LINE_NCH_PMT_AMT line_big = Some 999995 \<and> LINE_ALOWD_CHRG_AMT line_big = Some 1000000 \<and>
   \<not> \<bar>999995 - 1000000\<bar> \<le> (1::real)"
  by (simp add: clean_data_def ex_defs ex2_defs col_defs flag_defs)

text \<open>
  C3, amended. On a clean line with paid-to-plan and allowed present and paid-to-plan not
  negative, exactly one flag is true, except when the fully-paid flag holds together with
  paid-to-plan below allowed, or with both amounts zero: then exactly two are true. The
  fully-paid flag is \<open>\<bar>paid - allowed\<bar> \<le> 1 + \<bar>allowed\<bar> / 100000\<close>.
\<close>

theorem payment_flags:
  assumes "clean_data df = Inr df_clean" and "r \<in> set df_clean"
    and "LINE_NCH_PMT_AMT r = Some p" and "LINE_ALOWD_CHRG_AMT r = Some a" and "0 \<le> p"
  shows "flag_count r = (if FULLY_PAID_FLAG r \<and> (p < a \<or> (p = 0 \<and> a = 0)) then 2 else 1) \<and>
         (FULLY_PAID_FLAG r \<longleftrightarrow> \<bar>p - a\<bar> \<le> 1 + \<bar>a\<bar> / 100000)"
proof -
  from clean_data_mem(1) [OF assms(1,2)] assms(3,4) have le: "p \<le> a"
    by (auto simp: FIN_LOGIC_VIOLATION_def col_lt_def)
  have f: "FULLY_PAID_FLAG r \<longleftrightarrow> \<bar>p - a\<bar> \<le> 1 + \<bar>a\<bar> / 100000"
    using assms(3,4) by (simp add: flag_defs)
  have z: "ZERO_PAID_FLAG r \<longleftrightarrow> p = 0" using assms(3) by (simp add: flag_defs)
  have pp: "PARTIAL_PAID_FLAG r \<longleftrightarrow> 0 < p \<and> p < a" using assms(3,4) by (simp add: flag_defs col_lt_def)
  have "flag_count r = (if FULLY_PAID_FLAG r \<and> (p < a \<or> (p = 0 \<and> a = 0)) then 2 else 1)"
    unfolding flag_count_def z pp f using le assms(5) by auto
  with f show ?thesis by simp
qed

theorem payment_flags_witness:
  "clean_data [line_ok, line_big] = Inr [line_ok, line_big] \<and>
   LINE_NCH_PMT_AMT line_ok = Some 50 \<and> LINE_ALOWD_CHRG_AMT line_ok = Some 100 \<and> (0::real) \<le> 50 \<and>
   flag_count line_ok = 1 \<and> \<not> FULLY_PAID_FLAG line_ok \<and>
   LINE_NCH_PMT_AMT line_big = Some 999995 \<and> LINE_ALOWD_CHRG_AMT line_big = Some 1000000 \<and>
   flag_count line_big = 2 \<and> FULLY_PAID_FLAG line_big"
proof -
  have h: "clean_data [line_ok, line_big] = Inr [line_ok, line_big]"
    by (simp add: clean_data_def ex_defs ex2_defs col_defs)
  have f: "LINE_NCH_PMT_AMT line_ok = Some 50" "LINE_ALOWD_CHRG_AMT line_ok = Some 100"
    "LINE_NCH_PMT_AMT line_big = Some 999995" "LINE_ALOWD_CHRG_AMT line_big = Some 1000000"
    by (simp_all add: ex_defs ex2_defs)
  have a: "flag_count line_ok = 1 \<and> \<not> FULLY_PAID_FLAG line_ok"
    using payment_flags [OF h _ f(1,2)] by simp
  have b: "flag_count line_big = 2 \<and> FULLY_PAID_FLAG line_big"
    using payment_flags [OF h _ f(3,4)] by simp
  from h f a b show ?thesis by simp
qed

text \<open>
  C8, as stated, fails: the tolerance of the fully-paid flag is not purely absolute. The
  line of 1000000 paid 999995 is fully-paid, five units short.
\<close>

theorem fully_paid_counterexample:
  "clean_data [line_big] = Inr [line_big] \<and>
   LINE_NCH_PMT_AMT line_big = Some 999995 \<and> LINE_ALOWD_CHRG_AMT line_big = Some 1000000 \<and>
   FULLY_PAID_FLAG line_big \<and> \<not> \<bar>999995 - 1000000\<bar> \<le> (1::real)"
  by (simp add: clean_data_def ex_defs ex2_defs col_defs flag_defs)

text \<open>
  C8, amended. On a line with paid-to-plan and allowed present, the fully-paid flag is
  true exactly when \<open>\<bar>paid - allowed\<bar> \<le> 1 + \<bar>allowed\<bar> / 100000\<close>: one unit plus the
  default relative tolerance of \<^verbatim>\<open>np.isclose\<close>, which grows with the allowed amount.
\<close>

theorem fully_paid_iff:
  assumes "LINE_NCH_PMT_AMT r = Some p" and "LINE_ALOWD_CHRG_AMT r = Some a"
  shows "FULLY_PAID_FLAG r \<longleftrightarrow> \<bar>p - a\<bar> \<le> 1 + \<bar>a\<bar> / 100000"
  using assms by (simp add: flag_defs)

theorem fully_paid_iff_witness:
  "LINE_NCH_PMT_AMT line_big = Some 999995 \<and> LINE_ALOWD_CHRG_AMT line_big = Some 1000000 \<and>
   FULLY_PAID_FLAG line_big \<and>
   LINE_NCH_PMT_AMT line_ok = Some 50 \<and> LINE_ALOWD_CHRG_AMT line_ok = Some 100 \<and>
   \<not> FULLY_PAID_FLAG line_ok"
proof -
  have f: "LINE_NCH_PMT_AMT line_ok = Some 50" "LINE_ALOWD_CHRG_AMT line_ok = Some 100"
    "LINE_NCH_PMT_AMT line_big = Some 999995" "LINE_ALOWD_CHRG_AMT line_big = Some 1000000"
    by (simp_all add: ex_defs ex2_defs)
  from fully_paid_iff [OF f(1,2)] fully_paid_iff [OF f(3,4)] f show ?thesis by simp
qed

subsection \<open>The overall realization rate\<close>

text \<open>
  C4, as stated, fails. On the scenario of the specification the sums are 150 and 300 and
  the summary holds 50, a percentage, not the quotient 1/2. And a zero sum of allowed
  amounts gives an infinity, not NaN, when the sum of paid amounts is not zero.
\<close>

theorem realization_rate_counterexample:
  "clean_data [line_full, line_zero, line_half] = Inr [line_full, line_zero, line_half] \<and>
   total_paid (calculate_metrics [line_full, line_zero, line_half]) = 150 \<and>
   total_revenue (calculate_metrics [line_full, line_zero, line_half]) = 300 \<and>
   overall_realization_rate (calculate_metrics [line_full, line_zero, line_half]) = Fin 50 \<and>
   Fin 50 \<noteq> Fin (150 / 300) \<and>
   clean_data [line_allowed_missing] = Inr [line_allowed_missing] \<and>
   total_revenue (calculate_metrics [line_allowed_missing]) = 0 \<and>
   overall_realization_rate (calculate_metrics [line_allowed_missing]) = PosInf \<and>
   PosInf \<noteq> NaN"
  by (simp add: clean_data_def ex_defs ex2_defs col_defs calculate_metrics_def)

text \<open>
  C4, amended. The overall realization rate is 100 times the sum of the paid-to-plan
  amounts over the sum of the allowed amounts (a ratio of sums, as a percentage). When the
  sum of the allowed amounts is zero no error arises: the value is NaN if the sum of the
  paid amounts is zero too, and otherwise the infinity with the sign of that sum. A run
  whose \<open>clean_data\<close> returns goes through with this summary.
\<close>

theorem realization_rate_ratio_of_sums:
  "total_paid (calculate_metrics df) = nansum (map LINE_NCH_PMT_AMT df) \<and>
   total_revenue (calculate_metrics df) = nansum (map LINE_ALOWD_CHRG_AMT df) \<and>
   (total_revenue (calculate_metrics df) \<noteq> 0 \<longrightarrow>
      overall_realization_rate (calculate_metrics df) =
        Fin (100 * total_paid (calculate_metrics df) / total_revenue (calculate_metrics df))) \<and>
   (total_revenue (calculate_metrics df) = 0 \<longrightarrow>
      overall_realization_rate (calculate_metrics df) =
        (if total_paid (calculate_metrics df) = 0 then NaN
         else if 0 < total_paid (calculate_metrics df) then PosInf else NegInf)) \<and>
   (\<forall>df_clean. clean_data df = Inr df_clean \<longrightarrow>
      (\<exists>res. run_full_analysis df = Inr res \<and> overall res = calculate_metrics df_clean))"
  by (simp add: calculate_metrics_def np_div_def run_full_analysis_def)

theorem realization_rate_ratio_of_sums_witness:
  "total_revenue (calculate_metrics [line_full, line_zero, line_half]) = 300 \<and>
   overall_realization_rate (calculate_metrics [line_full, line_zero, line_half]) = Fin 50 \<and>
   total_revenue (calculate_metrics [line_paid_missing, line_allowed_missing]) = 100 \<and>
   total_revenue (calculate_metrics [line_zero_zero]) = 0 \<and>
   overall_realization_rate (calculate_metrics [line_zero_zero]) = NaN \<and>
   clean_data [line_zero_zero] = Inr [line_zero_zero] \<and>
   (\<exists>res. run_full_analysis [line_zero_zero] = Inr res \<and> overall res = calculate_metrics [line_zero_zero])"
proof -
  have h: "clean_data [line_zero_zero] = Inr [line_zero_zero]"
    by (simp add: clean_data_def ex_defs ex2_defs col_defs)
  have r: "total_revenue (calculate_metrics [line_full, line_zero, line_half]) = 300"
    "total_paid (calculate_metrics [line_full, line_zero, line_half]) = 150"
    "total_revenue (calculate_metrics [line_paid_missing, line_allowed_missing]) = 100"
    "total_revenue (calculate_metrics [line_zero_zero]) = 0"
    "total_paid (calculate_metrics [line_zero_zero]) = 0"
    by (simp_all add: calculate_metrics_def ex_defs ex2_defs)
  from realization_rate_ratio_of_sums [of "[line_full, line_zero, line_half]"]
    realization_rate_ratio_of_sums [of "[line_zero_zero]"] h r
  show ?thesis by simp
qed

subsection \<open>Empty frames\<close>

text \<open>
  C7, as stated, fails. A frame whose only line of 2022 has a financial-logic violation has
  an empty clean frame, and the run raises nothing: every stage runs on the empty frame
  and the run goes on to the export. A frame without a line of 2022 does end the run, with
  Python's \<^verbatim>\<open>ZeroDivisionError\<close>.
\<close>

theorem empty_dataset_counterexample:
  "clean_data [line_fin] = Inr [] \<and>
   run_full_analysis [line_fin] =
     Inr \<lparr> overall = empty_overall, hcpcs = [], specialty = [], high_risk = [] \<rparr> \<and>
   clean_data [line_2021] = Inl ZeroDivisionError \<and>
   run_full_analysis [line_2021] = Inl ZeroDivisionError"
  by (simp add: run_full_analysis_def clean_data_def ex_defs col_defs empty_overall_def metric_defs
      analyze_hcpcs_def analyze_specialty_def identify_risks_def group_keys_def sort_desc_def
      attach_cum_pct_def cumsum_def)

lemma analysis_of_empty:
  "calculate_metrics [] = empty_overall" "analyze_hcpcs [] = []" "analyze_specialty [] = []"
  "identify_risks [] = []"
  by (simp_all add: empty_overall_def metric_defs
      analyze_hcpcs_def analyze_specialty_def identify_risks_def group_keys_def sort_desc_def
      attach_cum_pct_def cumsum_def)

text \<open>
  C7, amended. If the temporal filter keeps no line, \<open>clean_data\<close> raises
  \<^verbatim>\<open>ZeroDivisionError\<close> and the run ends there, before any aggregation. If it keeps
  lines and the exclusion of violations removes them all, nothing is raised: the summary
  of the empty frame has NaN rates and the three tables are empty.
\<close>

theorem empty_dataset_behaviour:
  "(filter (\<lambda>r. SERVICE_YEAR r = Some 2022) df = [] \<longrightarrow>
      clean_data df = Inl ZeroDivisionError \<and> run_full_analysis df = Inl ZeroDivisionError) \<and>
   (filter (\<lambda>r. SERVICE_YEAR r = Some 2022) df \<noteq> [] \<and>
    filter (\<lambda>r. FIN_LOGIC_VIOLATION r = False) (filter (\<lambda>r. SERVICE_YEAR r = Some 2022) df) = [] \<longrightarrow>
      clean_data df = Inr [] \<and>
      run_full_analysis df =
        Inr \<lparr> overall = empty_overall, hcpcs = [], specialty = [], high_risk = [] \<rparr>)"
  by (simp add: run_full_analysis_def clean_data_def Let_def analysis_of_empty)

theorem empty_dataset_behaviour_witness:
  "filter (\<lambda>r. SERVICE_YEAR r = Some 2022) [line_2021] = [] \<and>
   run_full_analysis [line_2021] = Inl ZeroDivisionError \<and>
   filter (\<lambda>r. SERVICE_YEAR r = Some 2022) [line_fin] \<noteq> [] \<and>
   filter (\<lambda>r. FIN_LOGIC_VIOLATION r = False) (filter (\<lambda>r. SERVICE_YEAR r = Some 2022) [line_fin]) = [] \<and>
   run_full_analysis [line_fin] =
     Inr \<lparr> overall = empty_overall, hcpcs = [], specialty = [], high_risk = [] \<rparr>"
proof -
  have a: "filter (\<lambda>r. SERVICE_YEAR r = Some 2022) [line_2021] = []"
    by (simp add: ex_defs col_defs)
  have b: "filter (\<lambda>r. SERVICE_YEAR r = Some 2022) [line_fin] \<noteq> []"
    "filter (\<lambda>r. FIN_LOGIC_VIOLATION r = False) (filter (\<lambda>r. SERVICE_YEAR r = Some 2022) [line_fin]) = []"
    by (simp_all add: ex_defs col_defs)
  from empty_dataset_behaviour [of "[line_2021]"] empty_dataset_behaviour [of "[line_fin]"] a b
  show ?thesis by simp
qed

lemmas hcpcs_defs = analyze_hcpcs_def sort_desc_def attach_cum_pct_def cumsum_def hcpcs_group_def
  group_rows_def group_keys_def List.map_filter_simps UNDERPAYMENT_AMT_def col_sub_def np_div_def

subsection \<open>Grouping drops missing keys\<close>

lemma map_filter_drop_missing:
  "List.map_filter col (filter (\<lambda>r. col r \<noteq> None) df) = List.map_filter col df"
  by (induction df) (auto simp: List.map_filter_simps split: option.splits)

lemma group_keys_drop_missing:
  "group_keys col (filter (\<lambda>r. col r \<noteq> None) df) = group_keys col df"
  by (simp only: group_keys_def map_filter_drop_missing)

lemma group_rows_drop_missing:
  "group_rows col k (filter (\<lambda>r. col r \<noteq> None) df) = group_rows col k df"
  unfolding group_rows_def filter_filter by (rule filter_cong) auto

lemma hcpcs_group_drop_missing:
  "hcpcs_group (filter (\<lambda>r. HCPCS_CD r \<noteq> None) df) = hcpcs_group df"
  by (rule ext) (simp only: hcpcs_group_def group_rows_drop_missing)

lemma specialty_group_drop_missing:
  "specialty_group (filter (\<lambda>r. PRVDR_SPCLTY r \<noteq> None) df) = specialty_group df"
  by (rule ext) (simp only: specialty_group_def group_rows_drop_missing)

text \<open>
  C10. The lines without procedure code take no part in the procedure-code table, and the
  lines without specialty code take no part in the specialty table: either table is the
  table of the frame without those lines. So the underpayment summed over a table can be
  strictly below the total leakage of the summary: 100 against 150 on the scenario, whose
  half-paid line has no procedure code, and 50 against 80 for the specialty table of a
  frame with a line without specialty code.
\<close>

theorem grouping_drops_missing_keys:
  "analyze_hcpcs df = analyze_hcpcs (filter (\<lambda>r. HCPCS_CD r \<noteq> None) df) \<and>
   analyze_specialty df = analyze_specialty (filter (\<lambda>r. PRVDR_SPCLTY r \<noteq> None) df) \<and>
   clean_data [line_full, line_zero, line_half] = Inr [line_full, line_zero, line_half] \<and>
   HCPCS_CD line_half = None \<and>
   sum_list (map underpayment_amt (analyze_hcpcs [line_full, line_zero, line_half])) = 100 \<and>
   total_leakage (calculate_metrics [line_full, line_zero, line_half]) = 150 \<and>
   clean_data [line_ok, line_no_specialty] = Inr [line_ok, line_no_specialty] \<and>
   PRVDR_SPCLTY line_no_specialty = None \<and>
   sum_list (map underpayment_amt (analyze_specialty [line_ok, line_no_specialty])) = 50 \<and>
   total_leakage (calculate_metrics [line_ok, line_no_specialty]) = 80"
proof -
  have a: "analyze_hcpcs df = analyze_hcpcs (filter (\<lambda>r. HCPCS_CD r \<noteq> None) df)"
    by (simp only: analyze_hcpcs_def hcpcs_group_drop_missing group_keys_drop_missing)
  have b: "analyze_specialty df = analyze_specialty (filter (\<lambda>r. PRVDR_SPCLTY r \<noteq> None) df)"
    by (simp only: analyze_specialty_def specialty_group_drop_missing group_keys_drop_missing)
  have c: "clean_data [line_full, line_zero, line_half] = Inr [line_full, line_zero, line_half]"
    "clean_data [line_ok, line_no_specialty] = Inr [line_ok, line_no_specialty]"
    "HCPCS_CD line_half = None" "PRVDR_SPCLTY line_no_specialty = None"
    by (simp_all add: clean_data_def ex_defs ex2_defs line_no_specialty_def col_defs)
  have d: "sum_list (map underpayment_amt (analyze_hcpcs [line_full, line_zero, line_half])) = 100"
    by (simp add: analyze_hcpcs_def sort_desc_def attach_cum_pct_def cumsum_def hcpcs_group_def
        group_rows_def group_keys_def ex_defs ex2_defs List.map_filter_simps UNDERPAYMENT_AMT_def col_sub_def)
  have e: "total_leakage (calculate_metrics [line_full, line_zero, line_half]) = 150"
    "total_leakage (calculate_metrics [line_ok, line_no_specialty]) = 80"
    by (simp_all add: calculate_metrics_def ex_defs ex2_defs line_no_specialty_def UNDERPAYMENT_AMT_def col_sub_def)
  have f: "sum_list (map underpayment_amt (analyze_specialty [line_ok, line_no_specialty])) = 50"
    by (simp add: analyze_specialty_def specialty_group_def
        group_rows_def group_keys_def ex_defs line_no_specialty_def List.map_filter_simps UNDERPAYMENT_AMT_def col_sub_def)
  from a b c d e f show ?thesis by simp
qed

subsection \<open>The Pareto column\<close>

lemma nansum_nonneg:
  assumes "\<And>v. Some v \<in> set xs \<Longrightarrow> 0 \<le> v"
  shows "0 \<le> nansum xs"
  using assms
proof (induction xs rule: nansum.induct)
  case 1
  then show ?case by simp
next
  case (2 xs)
  then show ?case by simp
next
  case (3 x xs)
  then have "0 \<le> x" and "0 \<le> nansum xs" by auto
  then show ?case by simp
qed

lemma underpayment_nonneg:
  assumes "\<not> FIN_LOGIC_VIOLATION r" and "UNDERPAYMENT_AMT r = Some v"
  shows "0 \<le> v"
  using assms
  by (auto simp: FIN_LOGIC_VIOLATION_def UNDERPAYMENT_AMT_def col_lt_def col_sub_def split: option.splits)

lemma hcpcs_group_underpayment_nonneg:
  assumes "\<And>r. r \<in> set df \<Longrightarrow> \<not> FIN_LOGIC_VIOLATION r"
  shows "0 \<le> underpayment_amt (hcpcs_group df k)"
proof -
  have "0 \<le> nansum (map UNDERPAYMENT_AMT (group_rows HCPCS_CD k df))"
  proof (rule nansum_nonneg)
    fix v assume "Some v \<in> set (map UNDERPAYMENT_AMT (group_rows HCPCS_CD k df))"
    then obtain r where "r \<in> set df" and "UNDERPAYMENT_AMT r = Some v"
      by (auto simp: group_rows_def)
    with assms show "0 \<le> v" by (blast intro: underpayment_nonneg)
  qed
  then show ?thesis by (simp add: hcpcs_group_def Let_def)
qed

lemma length_cumsum_from: "length (cumsum_from acc xs) = length xs"
  by (induction xs arbitrary: acc) simp_all

lemma cumsum_from_lower:
  assumes "\<And>x. x \<in> set xs \<Longrightarrow> 0 \<le> x" and "c \<in> set (cumsum_from acc xs)"
  shows "acc \<le> c"
  using assms
proof (induction xs arbitrary: acc)
  case Nil
  then show ?case by simp
next
  case (Cons x xs)
  have x: "0 \<le> x" using Cons.prems(1) by simp
  from Cons.prems(2) consider "c = acc + x" | "c \<in> set (cumsum_from (acc + x) xs)" by auto
  then show ?case
  proof cases
    case 1
    with x show ?thesis by simp
  next
    case 2
    then have "acc + x \<le> c" using Cons.IH Cons.prems(1) by simp
    with x show ?thesis by simp
  qed
qed

lemma sorted_cumsum_from:
  assumes "\<And>x. x \<in> set xs \<Longrightarrow> 0 \<le> x"
  shows "sorted (cumsum_from acc xs)"
  using assms
proof (induction xs arbitrary: acc)
  case Nil
  then show ?case by simp
next
  case (Cons x xs)
  have "\<forall>c \<in> set (cumsum_from (acc + x) xs). acc + x \<le> c"
    using cumsum_from_lower [of xs _ "acc + x"] Cons.prems by auto
  moreover have "sorted (cumsum_from (acc + x) xs)" using Cons by simp
  ultimately show ?case by simp
qed

lemma last_cumsum_from:
  "xs \<noteq> [] \<Longrightarrow> last (cumsum_from acc xs) = acc + sum_list xs"
proof (induction xs arbitrary: acc)
  case Nil
  then show ?case by simp
next
  case (Cons x xs)
  show ?case
  proof (cases xs)
    case Nil
    then show ?thesis by simp
  next
    case (Cons y ys)
    then have "last (cumsum_from (acc + x) xs) = acc + x + sum_list xs"
      using Cons.IH [of "acc + x"] by simp
    moreover have "cumsum_from (acc + x) xs \<noteq> []" using Cons by simp
    ultimately show ?thesis by (simp add: add.assoc)
  qed
qed

lemma attach_cum_pct_columns:
  "map underpayment_amt (attach_cum_pct t) = map underpayment_amt t"
  "map cum_underpayment_pct (attach_cum_pct t) =
     map (\<lambda>c. np_div c (sum_list (map underpayment_amt t))) (cumsum (map underpayment_amt t))"
proof -
  have len: "length (cumsum (map underpayment_amt t)) = length t"
    by (simp add: cumsum_def length_cumsum_from)
  have "map underpayment_amt (attach_cum_pct t) = map underpayment_amt (map fst (zip t (cumsum (map underpayment_amt t))))"
    by (simp add: attach_cum_pct_def Let_def case_prod_beta)
  also have "\<dots> = map underpayment_amt t" using len by simp
  finally show "map underpayment_amt (attach_cum_pct t) = map underpayment_amt t" .
  have "map cum_underpayment_pct (attach_cum_pct t) =
      map (\<lambda>c. np_div c (sum_list (map underpayment_amt t))) (map snd (zip t (cumsum (map underpayment_amt t))))"
    by (simp add: attach_cum_pct_def Let_def case_prod_beta)
  also have "\<dots> = map (\<lambda>c. np_div c (sum_list (map underpayment_amt t))) (cumsum (map underpayment_amt t))"
    using len by simp
  finally show "map cum_underpayment_pct (attach_cum_pct t) =
     map (\<lambda>c. np_div c (sum_list (map underpayment_amt t))) (cumsum (map underpayment_amt t))" .
qed

lemma sort_desc_descending: "sorted_wrt (\<lambda>x y. y \<le> x) (map underpayment_amt (sort_desc t))"
proof -
  have "sorted (map (\<lambda>row. - underpayment_amt row) (sort_desc t))"
    unfolding sort_desc_def by (rule sorted_sort_key)
  then show ?thesis by (simp add: sorted_wrt_map sorted_map)
qed

lemma pareto_of_nonneg:
  assumes nn: "\<And>row. row \<in> set t \<Longrightarrow> 0 \<le> underpayment_amt row"
    and tot: "sum_list (map underpayment_amt t) \<noteq> 0"
  shows "sorted_wrt fnum_le (map cum_underpayment_pct (attach_cum_pct t))"
    and "attach_cum_pct t \<noteq> []"
    and "cum_underpayment_pct (last (attach_cum_pct t)) = Fin 1"
proof -
  define us where "us = map underpayment_amt t"
  define total where "total = sum_list us"
  have us_nn: "\<And>x. x \<in> set us \<Longrightarrow> 0 \<le> x" using nn by (auto simp: us_def)
  then have "0 \<le> total" unfolding total_def by (simp add: sum_list_nonneg)
  with tot have pos: "0 < total" by (simp add: total_def us_def)
  have ne: "us \<noteq> []" using tot by (auto simp: us_def)
  have col: "map cum_underpayment_pct (attach_cum_pct t) = map (\<lambda>c. np_div c total) (cumsum us)"
    by (simp add: attach_cum_pct_columns total_def us_def)
  have div: "np_div c total = Fin (c / total)" for c using pos by (simp add: np_div_def)
  have "sorted (cumsum us)" unfolding cumsum_def by (rule sorted_cumsum_from) (rule us_nn)
  then have "sorted_wrt (\<lambda>x y. fnum_le (np_div x total) (np_div y total)) (cumsum us)"
    unfolding div using pos by (auto simp: divide_right_mono elim!: sorted_wrt_mono_rel [rotated])
  then show "sorted_wrt fnum_le (map cum_underpayment_pct (attach_cum_pct t))"
    by (simp add: col sorted_wrt_map)
  have len: "length (attach_cum_pct t) = length t"
    using arg_cong [OF attach_cum_pct_columns(1) [of t], of length] by simp
  with ne show ne': "attach_cum_pct t \<noteq> []" by (auto simp: us_def)
  have cne: "cumsum us \<noteq> []" using ne by (cases us) (simp_all add: cumsum_def)
  have "cum_underpayment_pct (last (attach_cum_pct t)) = last (map cum_underpayment_pct (attach_cum_pct t))"
    using ne' by (simp add: last_map)
  also have "\<dots> = np_div (last (cumsum us)) total" using cne by (simp add: col last_map)
  also have "last (cumsum us) = total"
    using ne by (simp add: cumsum_def last_cumsum_from total_def)
  finally show "cum_underpayment_pct (last (attach_cum_pct t)) = Fin 1"
    using pos by (simp add: div)
qed

text \<open>
  The quotient of a running sum by a total is stable. If the two, as computed, are each
  within the relative error \<open>\<delta> < 1\<close> of one positive exact sum, and the quotient as
  computed is within the relative error \<open>\<delta>\<close> of their exact quotient, then the divisor is
  not zero and the computed quotient is within \<open>\<delta> * (3 + \<delta>) / (1 - \<delta>)\<close> of 1.
\<close>

lemma quotient_tolerance:
  fixes S c t y \<delta> :: real
  assumes S: "0 < S" and d0: "0 \<le> \<delta>" and d1: "\<delta> < 1"
    and c: "\<bar>c - S\<bar> \<le> \<delta> * S" and t: "\<bar>t - S\<bar> \<le> \<delta> * S"
    and y: "\<bar>y - c / t\<bar> \<le> \<delta> * \<bar>c / t\<bar>"
  shows "np_div c t = Fin (c / t)" and "\<bar>c / t - 1\<bar> \<le> 2 * \<delta> / (1 - \<delta>)"
    and "\<bar>y - 1\<bar> \<le> \<delta> * (3 + \<delta>) / (1 - \<delta>)"
proof -
  have lowS: "0 < (1 - \<delta>) * S" using S d1 by simp
  have tl: "(1 - \<delta>) * S \<le> t" using t by (simp add: algebra_simps abs_le_iff)
  then have tpos: "0 < t" using lowS by linarith
  then show "np_div c t = Fin (c / t)" by (simp add: np_div_def)
  have cl: "(1 - \<delta>) * S \<le> c" and cu: "c \<le> (1 + \<delta>) * S"
    using c by (simp_all add: algebra_simps abs_le_iff)
  have cpos: "0 < c" using cl lowS by linarith
  have ct: "\<bar>c - t\<bar> \<le> 2 * \<delta> * S" using c t by (simp add: algebra_simps abs_le_iff)
  have "\<bar>c / t - 1\<bar> = \<bar>c - t\<bar> / t" using tpos by (simp add: field_simps abs_if)
  also have "\<dots> \<le> (2 * \<delta> * S) / t" using ct tpos by (simp add: divide_right_mono)
  also have "\<dots> \<le> (2 * \<delta> * S) / ((1 - \<delta>) * S)"
    using tl lowS d0 S by (intro divide_left_mono) (simp_all add: mult_pos_pos)
  also have "\<dots> = 2 * \<delta> / (1 - \<delta>)" using S by simp
  finally show x1: "\<bar>c / t - 1\<bar> \<le> 2 * \<delta> / (1 - \<delta>)" .
  have "c / t \<le> ((1 + \<delta>) * S) / t" using cu tpos by (simp add: divide_right_mono)
  also have "\<dots> \<le> ((1 + \<delta>) * S) / ((1 - \<delta>) * S)"
    using tl lowS d0 S by (intro divide_left_mono) (simp_all add: mult_pos_pos)
  also have "\<dots> = (1 + \<delta>) / (1 - \<delta>)" using S by simp
  finally have xu: "c / t \<le> (1 + \<delta>) / (1 - \<delta>)" .
  have xpos: "0 < c / t" using cpos tpos by simp
  have "\<bar>y - 1\<bar> \<le> \<bar>y - c / t\<bar> + \<bar>c / t - 1\<bar>" by simp
  also have "\<dots> \<le> \<delta> * (c / t) + 2 * \<delta> / (1 - \<delta>)"
  proof -
    have "\<bar>c / t\<bar> = c / t" using xpos by (simp only: abs_of_pos)
    with y have "\<bar>y - c / t\<bar> \<le> \<delta> * (c / t)" by (simp only:)
    then show ?thesis using x1 by (rule add_mono)
  qed
  also have "\<dots> \<le> \<delta> * ((1 + \<delta>) / (1 - \<delta>)) + 2 * \<delta> / (1 - \<delta>)"
  proof -
    have "\<delta> * (c / t) \<le> \<delta> * ((1 + \<delta>) / (1 - \<delta>))" using xu d0 by (rule mult_left_mono)
    then show ?thesis by (rule add_right_mono)
  qed
  also have "\<dots> = (\<delta> * (1 + \<delta>) + 2 * \<delta>) / (1 - \<delta>)"
    by (simp only: times_divide_eq_right add_divide_distrib [symmetric])
  also have "\<delta> * (1 + \<delta>) + 2 * \<delta> = \<delta> * (3 + \<delta>)" by (simp add: algebra_simps)
  finally show "\<bar>y - 1\<bar> \<le> \<delta> * (3 + \<delta>) / (1 - \<delta>)" .
qed

text \<open>
  C5, as stated, fails. A clean frame of one line paid in full has one group, of
  underpayment zero; the grand total is zero and the cumulative percentage is \<open>0/0\<close>,
  NaN, not 1. A clean frame whose lines all lack the procedure code has an empty table.
\<close>

theorem pareto_curve_counterexample:
  "clean_data [line_full] = Inr [line_full] \<and>
   map underpayment_amt (analyze_hcpcs [line_full]) = [0] \<and>
   map cum_underpayment_pct (analyze_hcpcs [line_full]) = [NaN] \<and>
   cum_underpayment_pct (last (analyze_hcpcs [line_full])) \<noteq> Fin 1 \<and>
   clean_data [line_half] = Inr [line_half] \<and> analyze_hcpcs [line_half] = []"
  by (simp add: clean_data_def ex_defs ex2_defs col_defs hcpcs_defs)

text \<open>
  C5, amended. For a clean frame whose grand total of the per-group underpayment is not
  zero, the table is in descending order of underpayment, its cumulative-percentage column
  is non-decreasing from the first to the last row, and the last value equals 1 within
  floating-point tolerance. In the exact arithmetic of this model the last value is 1.
  The float64 column of the source rounds the running sum, the grand total and their
  quotient; the tolerance is made explicit: whenever these three are within the relative
  error \<open>\<delta> < 1\<close> of their exact values, the divisor is not zero and the last value is
  within \<open>\<delta> * (3 + \<delta>) / (1 - \<delta>)\<close> of 1.
\<close>

theorem pareto_curve:
  assumes "clean_data df = Inr df_clean"
    and "sum_list (map underpayment_amt (analyze_hcpcs df_clean)) \<noteq> 0"
  shows "sorted_wrt (\<lambda>x y. y \<le> x) (map underpayment_amt (analyze_hcpcs df_clean)) \<and>
         sorted_wrt fnum_le (map cum_underpayment_pct (analyze_hcpcs df_clean)) \<and>
         analyze_hcpcs df_clean \<noteq> [] \<and>
         cum_underpayment_pct (last (analyze_hcpcs df_clean)) = Fin 1 \<and>
         (\<forall>c t y \<delta>. 0 \<le> \<delta> \<and> \<delta> < 1 \<and>
            \<bar>c - sum_list (map underpayment_amt (analyze_hcpcs df_clean))\<bar>
              \<le> \<delta> * sum_list (map underpayment_amt (analyze_hcpcs df_clean)) \<and>
            \<bar>t - sum_list (map underpayment_amt (analyze_hcpcs df_clean))\<bar>
              \<le> \<delta> * sum_list (map underpayment_amt (analyze_hcpcs df_clean)) \<and>
            \<bar>y - c / t\<bar> \<le> \<delta> * \<bar>c / t\<bar> \<longrightarrow>
            np_div c t = Fin (c / t) \<and> \<bar>y - 1\<bar> \<le> \<delta> * (3 + \<delta>) / (1 - \<delta>))"
proof -
  define t where "t = sort_desc (map (hcpcs_group df_clean) (group_keys HCPCS_CD df_clean))"
  have a: "analyze_hcpcs df_clean = attach_cum_pct t" by (simp add: analyze_hcpcs_def t_def)
  have nn: "0 \<le> underpayment_amt row" if "row \<in> set t" for row
  proof -
    from that obtain k where "row = hcpcs_group df_clean k"
      by (auto simp: t_def sort_desc_def)
    then show ?thesis
      using hcpcs_group_underpayment_nonneg [of df_clean k] clean_data_mem(1) [OF assms(1)] by simp
  qed
  have tot: "sum_list (map underpayment_amt t) \<noteq> 0"
    using assms(2) by (simp add: a attach_cum_pct_columns)
  have "0 \<le> sum_list (map underpayment_amt t)"
    by (rule sum_list_nonneg) (auto dest: nn)
  with tot have "0 < sum_list (map underpayment_amt t)" by simp
  then have pos: "0 < sum_list (map underpayment_amt (analyze_hcpcs df_clean))"
    by (simp add: a attach_cum_pct_columns)
  have tol: "np_div c s = Fin (c / s) \<and> \<bar>y - 1\<bar> \<le> \<delta> * (3 + \<delta>) / (1 - \<delta>)"
    if "0 \<le> \<delta>" and "\<delta> < 1"
      and "\<bar>c - sum_list (map underpayment_amt (analyze_hcpcs df_clean))\<bar>
              \<le> \<delta> * sum_list (map underpayment_amt (analyze_hcpcs df_clean))"
      and "\<bar>s - sum_list (map underpayment_amt (analyze_hcpcs df_clean))\<bar>
              \<le> \<delta> * sum_list (map underpayment_amt (analyze_hcpcs df_clean))"
      and "\<bar>y - c / s\<bar> \<le> \<delta> * \<bar>c / s\<bar>"
    for c s y \<delta> :: real
    using quotient_tolerance(1,3) [OF pos that] by simp
  have "sorted_wrt (\<lambda>x y. y \<le> x) (map underpayment_amt (analyze_hcpcs df_clean))"
    by (simp add: a attach_cum_pct_columns t_def sort_desc_descending)
  moreover have "sorted_wrt fnum_le (map cum_underpayment_pct (analyze_hcpcs df_clean))"
    and "analyze_hcpcs df_clean \<noteq> []"
    and "cum_underpayment_pct (last (analyze_hcpcs df_clean)) = Fin 1"
    using pareto_of_nonneg [OF nn tot] by (simp_all add: a)
  ultimately show ?thesis using tol by blast
qed

theorem pareto_curve_witness:
  "clean_data [line_ok, line_zero, line_full] = Inr [line_ok, line_zero, line_full] \<and>
   sum_list (map underpayment_amt (analyze_hcpcs [line_ok, line_zero, line_full])) = 150 \<and>
   map underpayment_amt (analyze_hcpcs [line_ok, line_zero, line_full]) = [100, 50] \<and>
   map cum_underpayment_pct (analyze_hcpcs [line_ok, line_zero, line_full]) = [Fin (2 / 3), Fin 1] \<and>
   sorted_wrt fnum_le (map cum_underpayment_pct (analyze_hcpcs [line_ok, line_zero, line_full])) \<and>
   cum_underpayment_pct (last (analyze_hcpcs [line_ok, line_zero, line_full])) = Fin 1 \<and>
   (0 :: real) \<le> 1 / 1000 \<and> (1 / 1000 :: real) < 1 \<and>
   \<bar>14999 / 100 - 150\<bar> \<le> (1 / 1000 :: real) * 150 \<and>
   \<bar>15001 / 100 - 150\<bar> \<le> (1 / 1000 :: real) * 150 \<and>
   \<bar>9999 / 10000 - (14999 / 100) / (15001 / 100)\<bar> \<le> (1 / 1000 :: real) * \<bar>(14999 / 100) / (15001 / 100)\<bar> \<and>
   np_div (14999 / 100) (15001 / 100) = Fin ((14999 / 100) / (15001 / 100)) \<and>
   \<bar>9999 / 10000 - 1\<bar> \<le> (1 / 1000 :: real) * (3 + 1 / 1000) / (1 - 1 / 1000)"
proof -
  have h: "clean_data [line_ok, line_zero, line_full] = Inr [line_ok, line_zero, line_full]"
    by (simp add: clean_data_def ex_defs ex2_defs col_defs)
  have u: "map underpayment_amt (analyze_hcpcs [line_ok, line_zero, line_full]) = [100, 50]"
    by (simp add: ex_defs ex2_defs hcpcs_defs)
  have c: "map cum_underpayment_pct (analyze_hcpcs [line_ok, line_zero, line_full]) = [Fin (2 / 3), Fin 1]"
    by (simp add: ex_defs ex2_defs hcpcs_defs)
  have s: "sum_list (map underpayment_amt (analyze_hcpcs [line_ok, line_zero, line_full])) = 150"
    unfolding u by simp
  have s0: "sum_list (map underpayment_amt (analyze_hcpcs [line_ok, line_zero, line_full])) \<noteq> 0"
    unfolding s by simp
  have e: "(0 :: real) \<le> 1 / 1000" "(1 / 1000 :: real) < 1"
    "\<bar>14999 / 100 - 150\<bar> \<le> (1 / 1000 :: real) * 150"
    "\<bar>15001 / 100 - 150\<bar> \<le> (1 / 1000 :: real) * 150"
    "\<bar>9999 / 10000 - (14999 / 100) / (15001 / 100)\<bar> \<le> (1 / 1000 :: real) * \<bar>(14999 / 100) / (15001 / 100)\<bar>"
    by simp_all
  note p = pareto_curve [OF h s0, unfolded s]
  from p have "sorted_wrt fnum_le (map cum_underpayment_pct (analyze_hcpcs [line_ok, line_zero, line_full]))"
    and "cum_underpayment_pct (last (analyze_hcpcs [line_ok, line_zero, line_full])) = Fin 1"
    by blast+
  moreover from p e
  have "np_div (14999 / 100) (15001 / 100) = Fin ((14999 / 100) / (15001 / 100)) \<and>
     \<bar>9999 / 10000 - 1\<bar> \<le> (1 / 1000 :: real) * (3 + 1 / 1000) / (1 - 1 / 1000)"
    by blast
  ultimately show ?thesis using h u c s e by blast
qed

subsection \<open>High-risk services\<close>

lemma quantile_percentile_linear:
  assumes "0 \<le> p" and "p \<le> 1"
  shows "quantile xs p = percentile_linear xs p"
proof (cases "xs = []")
  case True
  then show ?thesis by (simp add: quantile_def percentile_linear_def)
next
  case False
  define n where "n = length xs"
  define h where "h = real (n - 1) * p"
  have n: "0 < n" using False by (simp add: n_def)
  have h0: "0 \<le> h" using assms by (simp add: h_def)
  have h1: "h \<le> real (n - 1)" using assms by (simp add: h_def mult_left_le)
  have lo: "real (nat \<lfloor>h\<rfloor>) = of_int \<lfloor>h\<rfloor>" using h0 by simp
  have hi: "min (nat \<lfloor>h\<rfloor> + 1) (n - 1) = nat \<lceil>h\<rceil> \<or> h = of_int \<lfloor>h\<rfloor>"
  proof (cases "h = of_int \<lfloor>h\<rfloor>")
    case True then show ?thesis by simp
  next
    case nint: False
    then have c: "\<lceil>h\<rceil> = \<lfloor>h\<rfloor> + 1" by (simp add: ceiling_altdef)
    have "h < real (n - 1)"
    proof (rule ccontr)
      assume "\<not> h < real (n - 1)"
      with h1 have "h = real (n - 1)" by simp
      then have "h = of_int \<lfloor>h\<rfloor>" by simp
      with nint show False by simp
    qed
    then have "\<lfloor>h\<rfloor> < int (n - 1)" using floor_less_iff [of h "int (n - 1)"] by simp
    then have "nat \<lfloor>h\<rfloor> + 1 \<le> n - 1" using h0 by linarith
    moreover have "nat \<lceil>h\<rceil> = nat \<lfloor>h\<rfloor> + 1" using c h0 by (simp add: nat_add_distrib)
    ultimately show ?thesis by simp
  qed
  have q: "quantile xs p =
      Some (sort xs ! nat \<lfloor>h\<rfloor> +
        (sort xs ! min (nat \<lfloor>h\<rfloor> + 1) (n - 1) - sort xs ! nat \<lfloor>h\<rfloor>) * (h - real (nat \<lfloor>h\<rfloor>)))"
    unfolding quantile_def Let_def h_def n_def using False by (simp only: if_False length_sort)
  have l: "percentile_linear xs p =
      Some (sort xs ! nat \<lfloor>h\<rfloor> + (h - of_int \<lfloor>h\<rfloor>) * (sort xs ! nat \<lceil>h\<rceil> - sort xs ! nat \<lfloor>h\<rfloor>))"
    unfolding percentile_linear_def Let_def h_def n_def using False by (simp only: if_False)
  from hi show ?thesis
  proof
    assume "min (nat \<lfloor>h\<rfloor> + 1) (n - 1) = nat \<lceil>h\<rceil>"
    then show ?thesis unfolding q l lo by (simp only: mult.commute)
  next
    assume "h = of_int \<lfloor>h\<rfloor>"
    then have "h - of_int \<lfloor>h\<rfloor> = 0" by simp
    then show ?thesis unfolding q l lo by (simp only: mult_zero_left mult_zero_right)
  qed
qed

lemma quantile_risk_table: "quantile (map underpayment_amt risk_table) (9 / 10) = Some (78 / 10)"
  by (simp add: quantile_def risk_table_def risk_row_def Let_def)

text \<open>
  C6. A row is flagged exactly when its summed underpayment is strictly above the 90th
  percentile, by linear interpolation, of the underpayment column of the whole table, or
  its realization rate is below 0.9; a realization rate that is NaN is not below 0.9. The
  high-risk table consists of the flagged rows of the table, in the order of the table.
\<close>

theorem high_risk_iff:
  "(\<forall>row. HIGH_RISK_FLAG t row \<longleftrightarrow>
      (\<exists>thr. percentile_linear (map underpayment_amt t) (9 / 10) = Some thr \<and> thr < underpayment_amt row) \<or>
      (\<exists>x. realization_rate row = Fin x \<and> x < 9 / 10) \<or> realization_rate row = NegInf) \<and>
   (\<forall>row. realization_rate row = NaN \<longrightarrow> \<not> fnum_lt_real (realization_rate row) (9 / 10)) \<and>
   (\<forall>row. row \<in> set (identify_risks t) \<longleftrightarrow> row \<in> set t \<and> HIGH_RISK_FLAG t row) \<and>
   identify_risks t = filter (HIGH_RISK_FLAG t) t \<and>
   subseq (identify_risks t) t"
proof -
  have q: "quantile (map underpayment_amt t) (9 / 10) = percentile_linear (map underpayment_amt t) (9 / 10)"
    by (rule quantile_percentile_linear) simp_all
  have "HIGH_RISK_FLAG t row \<longleftrightarrow>
      (\<exists>thr. percentile_linear (map underpayment_amt t) (9 / 10) = Some thr \<and> thr < underpayment_amt row) \<or>
      (\<exists>x. realization_rate row = Fin x \<and> x < 9 / 10) \<or> realization_rate row = NegInf" for row
    unfolding HIGH_RISK_FLAG_def q
    by (cases "realization_rate row") (auto simp: col_lt_def split: option.splits)
  then show ?thesis by (simp add: identify_risks_def)
qed

theorem high_risk_iff_witness:
  "percentile_linear (map underpayment_amt risk_table) (9 / 10) = Some (78 / 10) \<and>
   identify_risks risk_table = [risk_row ''A'' 100 91, risk_row ''C'' 20 16] \<and>
   realization_rate (risk_row ''D'' 0 0) = NaN \<and>
   \<not> fnum_lt_real (realization_rate (risk_row ''D'' 0 0)) (9 / 10) \<and>
   risk_row ''D'' 0 0 \<in> set risk_table \<and> \<not> HIGH_RISK_FLAG risk_table (risk_row ''D'' 0 0) \<and>
   risk_row ''D'' 0 0 \<notin> set (identify_risks risk_table) \<and>
   underpayment_amt (risk_row ''A'' 100 91) = 9 \<and> HIGH_RISK_FLAG risk_table (risk_row ''A'' 100 91) \<and>
   realization_rate (risk_row ''C'' 20 16) = Fin (8 / 10) \<and> HIGH_RISK_FLAG risk_table (risk_row ''C'' 20 16)"
proof -
  have p: "percentile_linear (map underpayment_amt risk_table) (9 / 10) = Some (78 / 10)"
    using quantile_percentile_linear [of "9 / 10" "map underpayment_amt risk_table"] quantile_risk_table
    by simp
  have f: "HIGH_RISK_FLAG risk_table (risk_row ''A'' 100 91)" "\<not> HIGH_RISK_FLAG risk_table (risk_row ''B'' 100 95)"
    "HIGH_RISK_FLAG risk_table (risk_row ''C'' 20 16)" "\<not> HIGH_RISK_FLAG risk_table (risk_row ''D'' 0 0)"
    by (simp_all add: HIGH_RISK_FLAG_def quantile_risk_table col_lt_def) (simp_all add: risk_row_def np_div_def)
  have i: "identify_risks risk_table = [risk_row ''A'' 100 91, risk_row ''C'' 20 16]"
    unfolding identify_risks_def using f by (simp add: risk_table_def)
  have m: "risk_row ''D'' 0 0 \<in> set risk_table" by (simp add: risk_table_def)
  have r: "realization_rate (risk_row ''D'' 0 0) = NaN" "underpayment_amt (risk_row ''A'' 100 91) = 9"
    "realization_rate (risk_row ''C'' 20 16) = Fin (8 / 10)"
    by (simp_all add: risk_row_def np_div_def)
  have n: "risk_row ''D'' 0 0 \<notin> set (identify_risks risk_table)"
    using high_risk_iff [of risk_table] f(4) by blast
  from p i f m r n show ?thesis by simp
qed










end
